theory Spec2Isabelle
  imports Main "HOL-Library.Word"
begin

section \<open>JavaScript values\<close>

text \<open>
  The agent (\<^verbatim>\<open>src/agent.js\<close>) works on untyped JavaScript values: the documents returned
  by the vector store, their metadata, and whatever a collaborator throws. The values that
  occur are modelled by one datatype. A number is an integer from \<open>- 2 ^ 53\<close> to
  \<open>2 ^ 53 - 1\<close>, kept as a signed word of 54 bits and read with \<open>sint\<close>: each of these
  is a double and prints in plain decimal, and the agent computes nothing with them (no
  \<^verbatim>\<open>NaN\<close>, no fractions, no larger numbers). Strings are lists of code units. An
  object is a data record given by its own properties in order; their values are data
  again, so no own property is callable. Arrays and functions do not occur inside these
  values.
\<close>

datatype jsval =
    JUndefined
  | JNull
  | JBool bool
  | JNum "54 word"
  | JStr string
  | JObj "(string \<times> jsval) list"

text \<open>\<^verbatim>\<open>v == null\<close>: the test behind \<^verbatim>\<open>??\<close> and \<^verbatim>\<open>?.\<close>.\<close>

fun nullish :: "jsval \<Rightarrow> bool" where
  "nullish JUndefined = True"
| "nullish JNull = True"
| "nullish _ = False"

text \<open>\<^verbatim>\<open>a ?? b\<close> for operands whose evaluation cannot throw.\<close>

definition nullish_or :: "jsval \<Rightarrow> jsval \<Rightarrow> jsval" where
  "nullish_or a b = (if nullish a then b else a)"

text \<open>JavaScript truthiness, as used by \<^verbatim>\<open>||\<close> and \<^verbatim>\<open>c ? x : y\<close>.\<close>

fun truthy :: "jsval \<Rightarrow> bool" where
  "truthy JUndefined = False"
| "truthy JNull = False"
| "truthy (JBool b) = b"
| "truthy (JNum n) = (n \<noteq> 0)"
| "truthy (JStr s) = (s \<noteq> [])"
| "truthy (JObj _) = True"

text \<open>
  Property read \<^verbatim>\<open>v.k\<close> on a value that is not nullish: an own property of an object,
  \<^verbatim>\<open>undefined\<close> otherwise (none of the property names the agent reads exists on the
  prototypes of objects, strings, numbers or booleans). On a nullish value JavaScript
  throws; the one place where the base can be nullish is checked explicitly in
  \<open>normalize\<close> below. With \<^verbatim>\<open>v?.k\<close> a nullish base gives \<^verbatim>\<open>undefined\<close>, which is what
  \<open>js_get\<close> returns there.
\<close>

fun js_get :: "jsval \<Rightarrow> string \<Rightarrow> jsval" where
  "js_get (JObj kvs) k = (case map_of kvs k of Some v \<Rightarrow> v | None \<Rightarrow> JUndefined)"
| "js_get _ k = JUndefined"

subsection \<open>Exceptions\<close>

text \<open>
  An exception is either a value thrown by a \<^verbatim>\<open>throw\<close> statement or by a collaborator,
  which can be any value, or a \<^verbatim>\<open>TypeError\<close> raised by the runtime itself. The latter is
  an \<^verbatim>\<open>Error\<close> object whose \<^verbatim>\<open>message\<close> is a string worded by the engine; the model
  does not fix that text. A computation that may throw returns a sum with the exception
  on the left.
\<close>

datatype js_exception = Thrown jsval | TypeError

text \<open>\<^verbatim>\<open>new Error(msg)\<close>: an object whose own property \<^verbatim>\<open>message\<close> is \<open>msg\<close>.\<close>

definition js_Error :: "string \<Rightarrow> jsval" where
  "js_Error msg = JObj [(''message'', JStr msg)]"

subsection \<open>String conversion\<close>

text \<open>The decimal numeral of an integer.\<close>

definition digit_char :: "nat \<Rightarrow> char" where
  "digit_char d = char_of (48 + d)"

function dec_digits :: "nat \<Rightarrow> string" where
  "dec_digits n = (if n < 10 then [digit_char n] else dec_digits (n div 10) @ [digit_char (n mod 10)])"
  by pat_completeness auto
termination
  by (relation "measure (\<lambda>n. n)") auto

definition decimal :: "int \<Rightarrow> string" where
  "decimal i = (if i < 0 then CHR ''-'' # dec_digits (nat (- i)) else dec_digits (nat i))"

text \<open>
  \<^verbatim>\<open>String(v)\<close>, which is also what a template literal \<^verbatim>\<open>${v}\<close> inserts. An object is
  converted through its \<^verbatim>\<open>toString\<close>: without an own property of that name the inherited
  method answers \<^verbatim>\<open>[object Object]\<close>. An own property \<^verbatim>\<open>toString\<close> is data and cannot be
  called; \<^verbatim>\<open>valueOf\<close>, own or inherited, then yields no primitive either, and the conversion
  throws a \<^verbatim>\<open>TypeError\<close>.
\<close>

fun to_string :: "jsval \<Rightarrow> js_exception + string" where
  "to_string JUndefined = Inr ''undefined''"
| "to_string JNull = Inr ''null''"
| "to_string (JBool b) = Inr (if b then ''true'' else ''false'')"
| "to_string (JNum n) = Inr (decimal (sint n))"
| "to_string (JStr s) = Inr s"
| "to_string (JObj kvs) =
     (if ''toString'' \<in> set (map fst kvs) then Inl TypeError else Inr ''[object Object]'')"

text \<open>
  Concatenation of the parts of a template literal, evaluated from left to right: the first
  part that throws ends the evaluation.
\<close>

fun str_cat :: "js_exception + string \<Rightarrow> js_exception + string \<Rightarrow> js_exception + string" where
  "str_cat (Inl e) _ = Inl e"
| "str_cat (Inr a) (Inl e) = Inl e"
| "str_cat (Inr a) (Inr b) = Inr (a @ b)"

section \<open>Backoff executor: \<^verbatim>\<open>retryWithBackoff\<close>\<close>

text \<open>
  The operation \<^verbatim>\<open>fn\<close> is an asynchronous call with effects: a function from the state of
  the world to an outcome (the value thrown, or the result) and the next state. The
  executor's own effects are recorded as a
  list of events: every call of \<^verbatim>\<open>fn\<close>, every \<^verbatim>\<open>console.log\<close> of a retry (delay and
  attempt number) and every sleep (delay in milliseconds).
\<close>

datatype retry_event = Invoked | Logged int int | Slept int

type_synonym ('w, 'a) operation = "'w \<Rightarrow> (jsval + 'a) \<times> 'w"

text \<open>\<^verbatim>\<open>err?.status === 429 || err?.code === 429\<close>\<close>

definition isRate :: "jsval \<Rightarrow> bool" where
  "isRate err = (js_get err ''status'' = JNum 429 \<or> js_get err ''code'' = JNum 429)"

text \<open>\<^verbatim>\<open>Math.min(1000 * Math.pow(2, attempt), 30000)\<close>, for the attempts \<open>1, 2, ...\<close> of the loop.\<close>

definition backoff_delay :: "int \<Rightarrow> int" where
  "backoff_delay attempt = min (1000 * 2 ^ nat attempt) 30000"

definition prepend_events ::
  "retry_event list \<Rightarrow> (jsval + 'a) \<times> 'w \<times> retry_event list \<Rightarrow> (jsval + 'a) \<times> 'w \<times> retry_event list" where
  "prepend_events evs r = (fst r, fst (snd r), evs @ snd (snd r))"

text \<open>
  The \<^verbatim>\<open>for\<close> loop from the iteration with counter \<open>attempt\<close> on. A success returns, a
  rate-limit error with attempts left logs, sleeps and continues, any other error is
  rethrown; leaving the loop throws \<^verbatim>\<open>new Error("Max retries exceeded")\<close>.
\<close>

function retry_loop ::
  "('w, 'a) operation \<Rightarrow> int \<Rightarrow> int \<Rightarrow> 'w \<Rightarrow> (jsval + 'a) \<times> 'w \<times> retry_event list" where
  "retry_loop fn maxRetries attempt w =
     (if attempt \<le> maxRetries then
        (case fst (fn w) of
           Inr v \<Rightarrow> (Inr v, snd (fn w), [Invoked])
         | Inl err \<Rightarrow>
             if isRate err \<and> attempt < maxRetries then
               prepend_events
                 [Invoked, Logged (backoff_delay attempt) attempt, Slept (backoff_delay attempt)]
                 (retry_loop fn maxRetries (attempt + 1) (snd (fn w)))
             else (Inl err, snd (fn w), [Invoked]))
      else (Inl (js_Error ''Max retries exceeded''), w, []))"
  by pat_completeness auto
termination
  by (relation "measure (\<lambda>(fn, maxRetries, attempt, w). nat (maxRetries + 1 - attempt))") auto

definition retryWithBackoff ::
  "('w, 'a) operation \<Rightarrow> int \<Rightarrow> 'w \<Rightarrow> (jsval + 'a) \<times> 'w \<times> retry_event list" where
  "retryWithBackoff fn maxRetries w = retry_loop fn maxRetries 1 w"

text \<open>Both call sites omit the second argument, so the default \<^verbatim>\<open>maxRetries = 3\<close> applies.\<close>

definition retryWithBackoff_default ::
  "('w, 'a) operation \<Rightarrow> 'w \<Rightarrow> (jsval + 'a) \<times> 'w \<times> retry_event list" where
  "retryWithBackoff_default fn w = retryWithBackoff fn 3 w"

text \<open>How often the operation was called, read off the events.\<close>

definition invocations :: "retry_event list \<Rightarrow> nat" where
  "invocations evs = length (filter (\<lambda>e. e = Invoked) evs)"

section \<open>Result normalizer: the body of the loop over the raw results\<close>

text \<open>
  A raw hit is the pair \<^verbatim>\<open>[doc, score]\<close> returned by the vector store. The document is an
  untyped value; the score is passed through unchanged and stays abstract.
\<close>

type_synonym 'sc hit = "jsval \<times> 'sc"

text \<open>The object pushed onto \<^verbatim>\<open>normalized\<close>: \<^verbatim>\<open>{ id, score, source, summary, full }\<close>.\<close>

record 'sc normalized =
  id_field :: jsval
  score :: 'sc
  source :: jsval
  summary :: string
  full :: jsval

text \<open>\<^verbatim>\<open>const meta = doc.metadata ?? {}\<close>\<close>

definition meta_of :: "jsval \<Rightarrow> jsval" where
  "meta_of doc = nullish_or (js_get doc ''metadata'') (JObj [])"

text \<open>\<^verbatim>\<open>const source = meta.source ?? docAny.source ?? "unknown"\<close>\<close>

definition source_of :: "jsval \<Rightarrow> jsval" where
  "source_of doc =
     nullish_or (nullish_or (js_get (meta_of doc) ''source'') (js_get doc ''source'')) (JStr ''unknown'')"

text \<open>The four arms of the \<^verbatim>\<open>if\<close> / \<^verbatim>\<open>else if\<close> chain, tested in the source's order.\<close>

datatype branch = ProjectRecord | TabularRow | DocumentChunk | Fallback

definition branch_of :: "jsval \<Rightarrow> branch" where
  "branch_of doc =
     (if source_of doc = JStr ''dummyProjects'' \<or> truthy (js_get (meta_of doc) ''raw'') then ProjectRecord
      else if source_of doc = JStr ''csv'' \<or> truthy (js_get (meta_of doc) ''row'') then TabularRow
      else if source_of doc = JStr ''markdown'' then DocumentChunk
      else Fallback)"

text \<open>
  \<^verbatim>\<open>v?.slice(0, n)\<close>: \<^verbatim>\<open>undefined\<close> on a nullish value, the first \<open>n\<close> code units of a
  string, and a \<^verbatim>\<open>TypeError\<close> on any other value, which has no \<^verbatim>\<open>slice\<close> method.
\<close>

fun opt_slice :: "jsval \<Rightarrow> nat \<Rightarrow> js_exception + jsval" where
  "opt_slice JUndefined n = Inr JUndefined"
| "opt_slice JNull n = Inr JUndefined"
| "opt_slice (JStr s) n = Inr (JStr (take n s))"
| "opt_slice _ n = Inl TypeError"

subsection \<open>Project records\<close>

text \<open>\<^verbatim>\<open>const raw = meta.raw ?? doc.metadata?.raw ?? docAny.raw ?? {}\<close>\<close>

definition raw_of :: "jsval \<Rightarrow> jsval" where
  "raw_of doc =
     nullish_or
       (nullish_or
          (nullish_or (js_get (meta_of doc) ''raw'') (js_get (js_get doc ''metadata'') ''raw''))
          (js_get doc ''raw''))
       (JObj [])"

text \<open>
  \<^verbatim>\<open>raw.projectName ?? raw.ProjectName ?? meta.projectName ?? docAny.pageContent?.slice(0, 80)\<close>:
  the slice is evaluated only when the three properties before it are nullish.
\<close>

definition projectName_of :: "jsval \<Rightarrow> js_exception + jsval" where
  "projectName_of doc =
     (let a = nullish_or
                (nullish_or (js_get (raw_of doc) ''projectName'') (js_get (raw_of doc) ''ProjectName''))
                (js_get (meta_of doc) ''projectName'')
      in if nullish a then opt_slice (js_get doc ''pageContent'') 80 else Inr a)"

definition location_of :: "jsval \<Rightarrow> jsval" where
  "location_of doc =
     nullish_or (nullish_or (js_get (raw_of doc) ''location'') (js_get (raw_of doc) ''Location''))
       (js_get (meta_of doc) ''location'')"

definition price_of :: "jsval \<Rightarrow> jsval" where
  "price_of doc = nullish_or (js_get (raw_of doc) ''price'') (js_get (raw_of doc) ''Price'')"

definition sequestration_of :: "jsval \<Rightarrow> jsval" where
  "sequestration_of doc =
     nullish_or
       (nullish_or (js_get (raw_of doc) ''carbonSequestration'') (js_get (raw_of doc) ''carbonSequestration''))
       (js_get (raw_of doc) ''sequestration'')"

definition stock_of :: "jsval \<Rightarrow> jsval" where
  "stock_of doc = nullish_or (js_get (raw_of doc) ''stock'') (js_get (raw_of doc) ''Stock'')"

text \<open>
  The template literal of the project branch. Every \<^verbatim>\<open>${...}\<close> converts its value to a
  string, which may throw; an optional field is converted only when it is truthy.
\<close>

definition project_summary ::
  "jsval \<Rightarrow> jsval \<Rightarrow> jsval \<Rightarrow> jsval \<Rightarrow> jsval \<Rightarrow> js_exception + string" where
  "project_summary projectName location sequestration price stock =
     str_cat (Inr ''Project: '')
    (str_cat (to_string projectName)
    (str_cat (if truthy location then str_cat (Inr '' | Location: '') (to_string location) else Inr [])
    (str_cat (if truthy sequestration
              then str_cat (Inr '' | Est. sequestration: '') (to_string sequestration) else Inr [])
    (str_cat (if truthy price then str_cat (Inr '' | Price: '') (to_string price) else Inr [])
             (if truthy stock then str_cat (Inr '' | Stock: '') (to_string stock) else Inr [])))))"

subsection \<open>Tabular rows\<close>

text \<open>\<^verbatim>\<open>const row = meta.row ?? docAny.row ?? {}\<close>\<close>

definition row_of :: "jsval \<Rightarrow> jsval" where
  "row_of doc = nullish_or (nullish_or (js_get (meta_of doc) ''row'') (js_get doc ''row'')) (JObj [])"

text \<open>\<^verbatim>\<open>row.nama_lokasi ?? row.nama_lokasi ?? row.name ?? doc.pageContent?.slice(0, 80)\<close>\<close>

definition nama_of :: "jsval \<Rightarrow> js_exception + jsval" where
  "nama_of doc =
     (let a = nullish_or
                (nullish_or (js_get (row_of doc) ''nama_lokasi'') (js_get (row_of doc) ''nama_lokasi''))
                (js_get (row_of doc) ''name'')
      in if nullish a then opt_slice (js_get doc ''pageContent'') 80 else Inr a)"

definition luas_of :: "jsval \<Rightarrow> jsval" where
  "luas_of doc =
     nullish_or (nullish_or (js_get (row_of doc) ''luas_ha'') (js_get (row_of doc) ''luas''))
       (js_get (row_of doc) ''area'')"

definition karbon_of :: "jsval \<Rightarrow> jsval" where
  "karbon_of doc =
     nullish_or (nullish_or (js_get (row_of doc) ''karbon_terserap'') (js_get (row_of doc) ''karbon''))
       (js_get (row_of doc) ''carbon'')"

definition rating_of :: "jsval \<Rightarrow> jsval" where
  "rating_of doc = nullish_or (js_get (row_of doc) ''rating_ulasan'') (js_get (row_of doc) ''rating'')"

text \<open>The template literal of the tabular branch.\<close>

definition row_summary :: "jsval \<Rightarrow> jsval \<Rightarrow> jsval \<Rightarrow> jsval \<Rightarrow> js_exception + string" where
  "row_summary nama luas karbon rating =
     str_cat (Inr ''Location: '')
    (str_cat (to_string nama)
    (str_cat (if truthy luas
              then str_cat (Inr '' | Area: '') (str_cat (to_string luas) (Inr '' ha'')) else Inr [])
    (str_cat (if truthy karbon then str_cat (Inr '' | Carbon captured: '') (to_string karbon) else Inr [])
             (if truthy rating then str_cat (Inr '' | Rating: '') (to_string rating) else Inr []))))"

subsection \<open>Document chunks and the fallback\<close>

text \<open>\<^verbatim>\<open>s.split("\n")\<close>: the pieces between separators; the empty string gives one empty piece.\<close>

fun split_on :: "char \<Rightarrow> string \<Rightarrow> string list" where
  "split_on c [] = [[]]"
| "split_on c (x # xs) =
     (if x = c then [] # split_on c xs
      else (case split_on c xs of [] \<Rightarrow> [[x]] | l # ls \<Rightarrow> (x # l) # ls))"

text \<open>\<^verbatim>\<open>pieces.join(sep)\<close>\<close>

fun join :: "string \<Rightarrow> string list \<Rightarrow> string" where
  "join sep [] = []"
| "join sep [x] = x"
| "join sep (x # y # ys) = x @ sep @ join sep (y # ys)"

text \<open>
  \<^verbatim>\<open>s.trim()\<close> removes white space and line terminators at both ends; among the code units
  below 256 these are tab, line feed, vertical tab, form feed, carriage return, space and
  the no-break space.
\<close>

definition is_space :: "char \<Rightarrow> bool" where
  "is_space c = (of_char c \<in> {9, 10, 11, 12, 13, 32, 160 :: nat})"

definition trim :: "string \<Rightarrow> string" where
  "trim s = rev (dropWhile is_space (rev (dropWhile is_space s)))"

text \<open>\<^verbatim>\<open>(doc.pageContent ?? "")\<close>, the receiver of \<^verbatim>\<open>split\<close> and of \<^verbatim>\<open>slice(0, 150)\<close>.\<close>

definition content_or_empty :: "jsval \<Rightarrow> jsval" where
  "content_or_empty doc = nullish_or (js_get doc ''pageContent'') (JStr [])"

text \<open>
  \<^verbatim>\<open>(doc.pageContent ?? "").split("\n").slice(0, 3).join(" ").trim()\<close>; a content that is
  not a string has no \<^verbatim>\<open>split\<close> method, and calling it is a \<^verbatim>\<open>TypeError\<close>.
\<close>

definition snippet_of :: "jsval \<Rightarrow> js_exception + string" where
  "snippet_of doc =
     (case content_or_empty doc of
        JStr s \<Rightarrow> Inr (trim (join '' '' (take 3 (split_on (CHR 0x0A) s))))
      | _ \<Rightarrow> Inl TypeError)"

text \<open>\<^verbatim>\<open>(doc.pageContent ?? "").slice(0, 150)\<close>\<close>

definition excerpt_of :: "jsval \<Rightarrow> js_exception + string" where
  "excerpt_of doc =
     (case content_or_empty doc of
        JStr s \<Rightarrow> Inr (take 150 s)
      | _ \<Rightarrow> Inl TypeError)"

subsection \<open>One hit\<close>

definition summary_of :: "jsval \<Rightarrow> js_exception + string" where
  "summary_of doc =
     (case branch_of doc of
        ProjectRecord \<Rightarrow>
          (case projectName_of doc of
             Inl err \<Rightarrow> Inl err
           | Inr projectName \<Rightarrow>
               project_summary projectName (location_of doc) (sequestration_of doc)
                 (price_of doc) (stock_of doc))
      | TabularRow \<Rightarrow>
          (case nama_of doc of
             Inl err \<Rightarrow> Inl err
           | Inr nama \<Rightarrow> row_summary nama (luas_of doc) (karbon_of doc) (rating_of doc))
      | DocumentChunk \<Rightarrow> str_cat (Inr ''Doc: '') (snippet_of doc)
      | Fallback \<Rightarrow> excerpt_of doc)"

text \<open>\<^verbatim>\<open>id: doc.metadata?._id ?? docAny._id ?? meta._id\<close>\<close>

definition id_of :: "jsval \<Rightarrow> jsval" where
  "id_of doc =
     nullish_or (nullish_or (js_get (js_get doc ''metadata'') ''_id'') (js_get doc ''_id''))
       (js_get (meta_of doc) ''_id'')"

text \<open>
  One iteration of the loop. Reading \<^verbatim>\<open>doc.metadata\<close> throws a \<^verbatim>\<open>TypeError\<close> when
  \<open>doc\<close> itself is nullish; after that every base of a property read is an object literal,
  a value that a \<^verbatim>\<open>??\<close> made non-nullish, or guarded by \<^verbatim>\<open>?.\<close>.
\<close>

definition normalize_hit :: "'sc hit \<Rightarrow> js_exception + 'sc normalized" where
  "normalize_hit r =
     (let doc = fst r; score = snd r in
      if nullish doc then Inl TypeError
      else
        (case summary_of doc of
           Inl err \<Rightarrow> Inl err
         | Inr s \<Rightarrow>
             Inr \<lparr>id_field = id_of doc, score = score, source = source_of doc,
                  summary = s, full = doc\<rparr>))"

text \<open>The loop: hits are normalized in order, and the first exception leaves the loop.\<close>

fun normalize_loop ::
  "'sc hit list \<Rightarrow> 'sc normalized list \<Rightarrow> js_exception + 'sc normalized list" where
  "normalize_loop [] normalized = Inr normalized"
| "normalize_loop (r # rs) normalized =
     (case normalize_hit r of
        Inl err \<Rightarrow> Inl err
      | Inr x \<Rightarrow> normalize_loop rs (normalized @ [x]))"

section \<open>Retrieval tool: \<^verbatim>\<open>vectorSearchTool\<close>\<close>

text \<open>
  The collaborators of the tool: the document collection, the two constructors and the
  similarity search of the vector store. Each may throw and each may change the world.
\<close>

record ('w, 'sc) collaborators =
  countDocuments :: "('w, int) operation"
  newEmbeddings :: "('w, unit) operation"
  newVectorStore :: "('w, unit) operation"
  similaritySearchWithScore :: "string \<Rightarrow> int \<Rightarrow> ('w, 'sc hit list) operation"

text \<open>
  What the tool does to the outside, in order: its first log line, the count, the two
  constructor calls, the events of the backoff executor around the search (there
  \<open>Invoked\<close> is one call of \<^verbatim>\<open>similaritySearchWithScore\<close>), and the error log of the handler.
\<close>

datatype tool_event =
    LogQuery string int
  | CountDocuments
  | NewEmbeddings
  | NewVectorStore
  | Search retry_event
  | LogError js_exception

text \<open>
  The tool returns \<^verbatim>\<open>JSON.stringify\<close> of an object literal. The model keeps the object:
  its property names in order, each with its value. \<open>FEngineText\<close> is the message of a
  \<^verbatim>\<open>TypeError\<close> raised by the runtime, a string whose wording is the engine's.
\<close>

datatype 'sc envelope_value =
    FStr string
  | FNum int
  | FVal jsval
  | FResults "'sc normalized list"
  | FEngineText

type_synonym 'sc envelope = "(string \<times> 'sc envelope_value) list"

definition empty_db_envelope :: "'sc envelope" where
  "empty_db_envelope =
     [(''error'', FStr ''empty_db''), (''message'', FStr ''No indexed documents found''),
      (''count'', FNum 0)]"

definition success_envelope :: "'sc normalized list \<Rightarrow> string \<Rightarrow> 'sc envelope" where
  "success_envelope normalized query =
     [(''results'', FResults normalized), (''searchType'', FStr ''vector''),
      (''query'', FStr query), (''count'', FNum (int (length normalized)))]"

text \<open>
  \<^verbatim>\<open>err?.message ?? String(err)\<close>: the property \<^verbatim>\<open>message\<close> of what was caught when it has
  one, and otherwise its conversion to a string, which may throw.
\<close>

definition error_details :: "js_exception \<Rightarrow> js_exception + 'sc envelope_value" where
  "error_details err =
     (case err of
        TypeError \<Rightarrow> Inr FEngineText
      | Thrown v \<Rightarrow>
          if nullish (js_get v ''message'')
          then (case to_string v of Inl e \<Rightarrow> Inl e | Inr s \<Rightarrow> Inr (FVal (JStr s)))
          else Inr (FVal (js_get v ''message'')))"

text \<open>
  The \<^verbatim>\<open>catch\<close> block, after its \<^verbatim>\<open>console.error\<close>: it builds the
  \<^verbatim>\<open>search_error\<close> envelope. Nothing guards it, so an exception of the conversion above
  leaves the tool.
\<close>

definition catch_block :: "js_exception \<Rightarrow> string \<Rightarrow> js_exception + 'sc envelope" where
  "catch_block err query =
     (case error_details err of
        Inl e \<Rightarrow> Inl e
      | Inr details \<Rightarrow>
          Inr [(''error'', FStr ''search_error''), (''details'', details), (''query'', FStr query)])"

text \<open>The \<^verbatim>\<open>try\<close> block. What a collaborator throws is a value.\<close>

definition search_body ::
  "('w, 'sc) collaborators \<Rightarrow> string \<Rightarrow> int \<Rightarrow> 'w \<Rightarrow>
     (js_exception + 'sc envelope) \<times> 'w \<times> tool_event list" where
  "search_body c query n w =
     (case countDocuments c w of
        (Inl err, w1) \<Rightarrow> (Inl (Thrown err), w1, [LogQuery query n, CountDocuments])
      | (Inr total_docs, w1) \<Rightarrow>
          if total_docs = 0 then (Inr empty_db_envelope, w1, [LogQuery query n, CountDocuments])
          else
            (case newEmbeddings c w1 of
               (Inl err, w2) \<Rightarrow>
                 (Inl (Thrown err), w2, [LogQuery query n, CountDocuments, NewEmbeddings])
             | (Inr _, w2) \<Rightarrow>
                 (case newVectorStore c w2 of
                    (Inl err, w3) \<Rightarrow>
                      (Inl (Thrown err), w3,
                       [LogQuery query n, CountDocuments, NewEmbeddings, NewVectorStore])
                  | (Inr _, w3) \<Rightarrow>
                      (case retryWithBackoff_default (similaritySearchWithScore c query n) w3 of
                         (Inl err, w4, evs) \<Rightarrow>
                           (Inl (Thrown err), w4,
                            [LogQuery query n, CountDocuments, NewEmbeddings, NewVectorStore]
                              @ map Search evs)
                       | (Inr rawResults, w4, evs) \<Rightarrow>
                           (case normalize_loop rawResults [] of
                              Inl err \<Rightarrow>
                                (Inl err, w4,
                                 [LogQuery query n, CountDocuments, NewEmbeddings, NewVectorStore]
                                   @ map Search evs)
                            | Inr normalized \<Rightarrow>
                                (Inr (success_envelope normalized query), w4,
                                 [LogQuery query n, CountDocuments, NewEmbeddings, NewVectorStore]
                                   @ map Search evs))))))"

text \<open>
  The tool: the argument \<^verbatim>\<open>n\<close> is optional with default 6, and an exception of the
  \<^verbatim>\<open>try\<close> block is logged and handed to the \<^verbatim>\<open>catch\<close> block. The result is a sum like
  that of every other call: \<open>Inl\<close> is an exception that reaches the caller.
\<close>

definition vectorSearchTool ::
  "('w, 'sc) collaborators \<Rightarrow> string \<Rightarrow> int option \<Rightarrow> 'w \<Rightarrow>
     (js_exception + 'sc envelope) \<times> 'w \<times> tool_event list" where
  "vectorSearchTool c query n_arg w =
     (case search_body c query (case n_arg of None \<Rightarrow> 6 | Some n \<Rightarrow> n) w of
        (Inr envelope, w', evs) \<Rightarrow> (Inr envelope, w', evs)
      | (Inl err, w', evs) \<Rightarrow> (catch_block err query, w', evs @ [LogError err]))"

section \<open>Observations and sample inputs\<close>

text \<open>
  Two notions used to state what an operation does over several calls: the operation fails
  with a rate-limit error in state \<open>w\<close>, and the state reached after \<open>j\<close> calls.
\<close>

definition rate_limited :: "('w, 'a) operation \<Rightarrow> 'w \<Rightarrow> bool" where
  "rate_limited fn w = (case fst (fn w) of Inl err \<Rightarrow> isRate err | Inr v \<Rightarrow> False)"

fun state_after :: "('w, 'a) operation \<Rightarrow> nat \<Rightarrow> 'w \<Rightarrow> 'w" where
  "state_after fn 0 w = w"
| "state_after fn (Suc j) w = state_after fn j (snd (fn w))"

text \<open>
  Notions used to state what a summary must be. A value is plain data when no object in it
  has an own property named \<^verbatim>\<open>toString\<close>. The text of a value is its string conversion
  where that exists. The suffixes of a list of optional fields, each given with its label
  and the unit that follows the value, are the labelled texts of the fields that are
  truthy, in the order of the list.
\<close>

fun plain :: "jsval \<Rightarrow> bool" where
  "plain (JObj kvs) = (''toString'' \<notin> set (map fst kvs) \<and> list_all (\<lambda>kv. plain (snd kv)) kvs)"
| "plain _ = True"

definition text_of :: "jsval \<Rightarrow> string" where
  "text_of v = (case to_string v of Inr s \<Rightarrow> s | Inl e \<Rightarrow> [])"

definition present_suffixes :: "(string \<times> jsval \<times> string) list \<Rightarrow> string" where
  "present_suffixes fs =
     concat (map (\<lambda>(label, v, unit). label @ text_of v @ unit)
               (filter (\<lambda>(label, v, unit). truthy v) fs))"

text \<open>
  Sample operations on a world that counts the calls made so far: one that is throttled on
  every call, and one that is throttled twice and then answers.
\<close>

definition rate_limit_error :: jsval where
  "rate_limit_error = JObj [(''status'', JNum 429), (''message'', JStr ''Too Many Requests'')]"

definition always_rate_limited :: "(nat, 'a) operation" where
  "always_rate_limited w = (Inl rate_limit_error, Suc w)"

definition fails_twice :: "(nat, jsval) operation" where
  "fails_twice w = (if w < 2 then Inl rate_limit_error else Inr (JStr ''ok''), Suc w)"

text \<open>
  Sample collaborators, again on a world that counts calls: a collection without documents,
  a collection of five documents whose similarity search is throttled on every call, and
  one whose similarity search throws an object that has neither a message nor a string
  conversion.
\<close>

definition empty_collection :: "(nat, nat) collaborators" where
  "empty_collection =
     \<lparr>countDocuments = (\<lambda>w. (Inr 0, Suc w)),
      newEmbeddings = (\<lambda>w. (Inr (), w)),
      newVectorStore = (\<lambda>w. (Inr (), w)),
      similaritySearchWithScore = (\<lambda>query n w. (Inr [], w))\<rparr>"

definition throttled_collection :: "(nat, nat) collaborators" where
  "throttled_collection =
     \<lparr>countDocuments = (\<lambda>w. (Inr 5, w)),
      newEmbeddings = (\<lambda>w. (Inr (), w)),
      newVectorStore = (\<lambda>w. (Inr (), w)),
      similaritySearchWithScore = (\<lambda>query n. always_rate_limited)\<rparr>"



text \<open>
  Sample documents: one with empty content and no metadata, one tagged as a project record
  without any name or content, one whose content is a number, one whose project name is an
  object with an own property \<^verbatim>\<open>toString\<close>, and a project record with a name, a
  location, a price and a stock of zero.
\<close>

definition blank_doc :: jsval where
  "blank_doc = JObj [(''pageContent'', JStr [])]"


definition numeric_content_doc :: jsval where
  "numeric_content_doc = JObj [(''pageContent'', JNum 5)]"

definition unprintable_name_doc :: jsval where
  "unprintable_name_doc =
     JObj [(''pageContent'', JStr ''text''),
           (''metadata'', JObj [(''raw'', JObj [(''projectName'', JObj [(''toString'', JStr ''x'')])])])]"

definition mangrove_doc :: jsval where
  "mangrove_doc =
     JObj [(''pageContent'', JStr ''Mangrove Bay restoration''),
           (''metadata'',
            JObj [(''source'', JStr ''dummyProjects''),
                  (''raw'', JObj [(''projectName'', JStr ''Mangrove Bay''), (''location'', JStr ''Bali''),
                                  (''price'', JNum 50), (''stock'', JNum 0)])])]"

section \<open>Properties of the backoff executor\<close>

declare retry_loop.simps [simp del]

lemma isRate_js_Error: "\<not> isRate (js_Error msg)"
  by (simp add: isRate_def js_Error_def)

lemma invocations_simps:
  "invocations [] = 0"
  "invocations (Invoked # evs) = Suc (invocations evs)"
  "invocations (Logged d a # evs) = invocations evs"
  "invocations (Slept d # evs) = invocations evs"
  by (simp_all add: invocations_def)

lemma retry_loop_exhausted:
  "maxRetries < attempt \<Longrightarrow>
     retry_loop fn maxRetries attempt w = (Inl (js_Error ''Max retries exceeded''), w, [])"
  by (subst retry_loop.simps) simp

lemma retry_loop_success:
  "attempt \<le> maxRetries \<Longrightarrow> fst (fn w) = Inr v \<Longrightarrow>
     retry_loop fn maxRetries attempt w = (Inr v, snd (fn w), [Invoked])"
  by (subst retry_loop.simps) simp

lemma retry_loop_retry:
  "attempt < maxRetries \<Longrightarrow> rate_limited fn w \<Longrightarrow>
     retry_loop fn maxRetries attempt w =
       prepend_events [Invoked, Logged (backoff_delay attempt) attempt, Slept (backoff_delay attempt)]
         (retry_loop fn maxRetries (attempt + 1) (snd (fn w)))"
  by (subst retry_loop.simps) (auto simp: rate_limited_def split: sum.splits)

lemma retry_loop_last:
  "attempt = maxRetries \<Longrightarrow> fst (fn w) = Inl err \<Longrightarrow>
     retry_loop fn maxRetries attempt w = (Inl err, snd (fn w), [Invoked])"
  by (subst retry_loop.simps) simp

text \<open>
  An error that is not a rate-limit error is rethrown at once, after a single call.
\<close>

lemma retry_loop_other_error:
  "attempt \<le> maxRetries \<Longrightarrow> fst (fn w) = Inl err \<Longrightarrow> \<not> isRate err \<Longrightarrow>
     retry_loop fn maxRetries attempt w = (Inl err, snd (fn w), [Invoked])"
  by (subst retry_loop.simps) simp

text \<open>
  Claim C9. With \<open>maxRetries\<close> zero or negative the loop body is never entered:
  \<open>retryWithBackoff\<close> throws the error "Max retries exceeded", the operation is not called
  at all, and the world is left as it was.
\<close>

theorem retryWithBackoff_nonpositive:
  "maxRetries \<le> 0 \<Longrightarrow>
     retryWithBackoff fn maxRetries w = (Inl (js_Error ''Max retries exceeded''), w, []) \<and>
     invocations (snd (snd (retryWithBackoff fn maxRetries w))) = 0"
  by (simp add: retryWithBackoff_def retry_loop_exhausted invocations_simps)

text \<open>The same at \<open>maxRetries = 0\<close>, for the operation that is throttled on every call.\<close>

theorem retryWithBackoff_nonpositive_witness:
  "(0::int) \<le> 0 \<and>
   retryWithBackoff always_rate_limited 0 (0::nat)
     = (Inl (js_Error ''Max retries exceeded'') :: jsval + jsval, 0, []) \<and>
   invocations (snd (snd (retryWithBackoff (always_rate_limited :: (nat, jsval) operation) 0 0))) = 0"
  using retryWithBackoff_nonpositive [of 0 always_rate_limited 0]
  by (simp add: invocations_simps)

text \<open>
  The loop started at attempt \<open>attempt\<close> with room for \<open>k\<close> more attempts, on an operation
  that is throttled \<open>k\<close> times and then succeeds.
\<close>

lemma retry_loop_recovers:
  "attempt + int k \<le> maxRetries \<Longrightarrow>
   (\<forall>j<k. rate_limited fn (state_after fn j w)) \<Longrightarrow>
   fst (fn (state_after fn k w)) = Inr v \<Longrightarrow>
     fst (retry_loop fn maxRetries attempt w) = Inr v \<and>
     fst (snd (retry_loop fn maxRetries attempt w)) = state_after fn (Suc k) w \<and>
     invocations (snd (snd (retry_loop fn maxRetries attempt w))) = Suc k"
proof (induction k arbitrary: attempt w)
  case 0
  then show ?case by (simp add: retry_loop_success invocations_simps)
next
  case (Suc k)
  from Suc.prems(2) have first: "rate_limited fn w"
    by (metis state_after.simps(1) zero_less_Suc)
  from Suc.prems(2) have rest: "\<forall>j<k. rate_limited fn (state_after fn j (snd (fn w)))"
    by (metis Suc_less_eq state_after.simps(2))
  from Suc.prems(1) have budget: "attempt < maxRetries" "(attempt + 1) + int k \<le> maxRetries"
    by simp_all
  from Suc.prems(3) have ok: "fst (fn (state_after fn k (snd (fn w)))) = Inr v"
    by simp
  note ih = Suc.IH [OF budget(2) rest ok]
  show ?case
    using ih by (simp add: retry_loop_retry [OF budget(1) first] prepend_events_def invocations_simps)
qed

text \<open>
  Claim C6. An operation that fails with a rate-limit error on its first \<open>k\<close> calls, with
  \<open>k < maxRetries\<close>, and succeeds with \<open>v\<close> on the next one: \<open>retryWithBackoff\<close> returns \<open>v\<close>
  and has called the operation exactly \<open>k + 1\<close> times.
\<close>

theorem retryWithBackoff_recovers:
  assumes "int k < maxRetries"
    and "\<forall>j<k. rate_limited fn (state_after fn j w)"
    and "fst (fn (state_after fn k w)) = Inr v"
  shows "fst (retryWithBackoff fn maxRetries w) = Inr v \<and>
         invocations (snd (snd (retryWithBackoff fn maxRetries w))) = k + 1"
  using retry_loop_recovers [of 1 k maxRetries fn w v] assms
  by (simp add: retryWithBackoff_def)

text \<open>Two throttled calls, then an answer, within three attempts.\<close>

theorem retryWithBackoff_recovers_witness:
  "fst (retryWithBackoff fails_twice 3 (0::nat)) = Inr (JStr ''ok'') \<and>
   invocations (snd (snd (retryWithBackoff fails_twice 3 (0::nat)))) = 3"
proof -
  have h1: "int 2 < 3" by simp
  have h2: "\<forall>j<2. rate_limited fails_twice (state_after fails_twice j 0)"
  proof (intro allI impI)
    fix j :: nat assume "j < 2"
    then have "j = 0 \<or> j = 1" by arith
    then show "rate_limited fails_twice (state_after fails_twice j 0)"
      by (auto simp: rate_limited_def fails_twice_def rate_limit_error_def isRate_def)
  qed
  have h3: "fst (fails_twice (state_after fails_twice 2 0)) = Inr (JStr ''ok'')"
    by (simp add: numeral_2_eq_2 fails_twice_def)
  show ?thesis using retryWithBackoff_recovers [OF h1 h2 h3] by simp
qed

text \<open>
  Claim C1, as the code has it. An operation that is throttled on each of its first three
  calls, with \<open>maxRetries = 3\<close>: \<open>retryWithBackoff\<close> calls it exactly three times and then
  fails with the rate-limit error of the third call, which is not the error
  "Max retries exceeded". On the last attempt the guard \<open>attempt < maxRetries\<close> is false, so
  the error caught is rethrown.
\<close>

theorem retryWithBackoff_persistent_rate_limit:
  assumes "rate_limited fn w"
    and "rate_limited fn (snd (fn w))"
    and "rate_limited fn (snd (fn (snd (fn w))))"
  shows "\<exists>err. fst (retryWithBackoff fn 3 w) = Inl err \<and>
            fst (fn (snd (fn (snd (fn w))))) = Inl err \<and> isRate err \<and>
            err \<noteq> js_Error ''Max retries exceeded'' \<and>
            invocations (snd (snd (retryWithBackoff fn 3 w))) = 3"
proof -
  from assms(3) obtain err where err: "fst (fn (snd (fn (snd (fn w))))) = Inl err" "isRate err"
    by (auto simp: rate_limited_def split: sum.splits)
  have "retry_loop fn 3 3 (snd (fn (snd (fn w)))) = (Inl err, snd (fn (snd (fn (snd (fn w))))), [Invoked])"
    using err(1) by (simp add: retry_loop_last)
  then have "retry_loop fn 3 1 w =
      (Inl err, snd (fn (snd (fn (snd (fn w))))),
       [Invoked, Logged 2000 1, Slept 2000, Invoked, Logged 4000 2, Slept 4000, Invoked])"
    using assms(1,2)
    by (simp add: retry_loop_retry prepend_events_def backoff_delay_def)
  moreover have "err \<noteq> js_Error ''Max retries exceeded''"
    using err(2) isRate_js_Error by blast
  ultimately show ?thesis
    using err by (simp add: retryWithBackoff_def invocations_simps)
qed

theorem retryWithBackoff_persistent_rate_limit_witness:
  "\<exists>err. fst (retryWithBackoff (always_rate_limited :: (nat, jsval) operation) 3 0) = Inl err \<and>
      fst ((always_rate_limited :: (nat, jsval) operation)
             (snd ((always_rate_limited :: (nat, jsval) operation)
                (snd ((always_rate_limited :: (nat, jsval) operation) 0))))) = Inl err \<and>
      isRate err \<and> err \<noteq> js_Error ''Max retries exceeded'' \<and>
      invocations (snd (snd (retryWithBackoff (always_rate_limited :: (nat, jsval) operation) 3 0))) = 3"
proof -
  have h: "\<And>w. rate_limited (always_rate_limited :: (nat, jsval) operation) w"
    by (simp add: rate_limited_def always_rate_limited_def rate_limit_error_def isRate_def)
  show ?thesis using retryWithBackoff_persistent_rate_limit [OF h h h, of 0] by simp
qed

text \<open>
  The run that refutes the claim as stated: throttled on every call, three attempts; the
  result is the throttling error itself after three calls and two sleeps.
\<close>

theorem retryWithBackoff_max_retries_counterexample:
  "retryWithBackoff always_rate_limited 3 (0::nat) =
     (Inl rate_limit_error :: jsval + jsval, 3,
      [Invoked, Logged 2000 1, Slept 2000, Invoked, Logged 4000 2, Slept 4000, Invoked]) \<and>
   rate_limit_error \<noteq> js_Error ''Max retries exceeded''"
  by (simp add: retryWithBackoff_def retry_loop.simps always_rate_limited_def rate_limit_error_def
      isRate_def js_Error_def prepend_events_def backoff_delay_def)

section \<open>Properties of the retrieval tool\<close>





text \<open>
  A reply of the \<^verbatim>\<open>catch\<close> block, read backwards: which exception it answers and what
  its \<^verbatim>\<open>details\<close> are.
\<close>

lemma catch_block_Inr:
  assumes "catch_block err query = Inr e"
  shows "\<exists>d. e = [(''error'', FStr ''search_error''), (''details'', d), (''query'', FStr query)] \<and>
           ((err = TypeError \<and> d = FEngineText) \<or>
            (\<exists>v. err = Thrown v \<and> \<not> nullish (js_get v ''message'') \<and> d = FVal (js_get v ''message'')) \<or>
            (\<exists>v s. err = Thrown v \<and> nullish (js_get v ''message'') \<and> to_string v = Inr s \<and>
                   d = FVal (JStr s)))"
  using assms
  by (cases err) (auto simp: catch_block_def error_details_def split: if_splits sum.splits)


text \<open>
  When the \<^verbatim>\<open>try\<close> block returns, it returns one of two envelopes; the tool passes an
  envelope on and hands an exception to the \<^verbatim>\<open>catch\<close> block.
\<close>

lemma search_body_ok_cases:
  "fst (search_body c query n w) = Inr e \<Longrightarrow>
     e = empty_db_envelope \<or> (\<exists>normalized. e = success_envelope normalized query)"
  by (auto simp: search_body_def split: prod.splits sum.splits if_splits)

lemma vectorSearchTool_cases:
  "(\<exists>e. fst (search_body c query (case n_arg of None \<Rightarrow> 6 | Some n \<Rightarrow> n) w) = Inr e \<and>
        fst (vectorSearchTool c query n_arg w) = Inr e) \<or>
   (\<exists>err. fst (search_body c query (case n_arg of None \<Rightarrow> 6 | Some n \<Rightarrow> n) w) = Inl err \<and>
        fst (vectorSearchTool c query n_arg w) = catch_block err query)"
  by (auto simp: vectorSearchTool_def split: prod.splits sum.splits)

text \<open>
  The three sample collections, run.
\<close>

lemma empty_collection_run:
  "vectorSearchTool empty_collection ''mangrove'' None 0 =
     (Inr empty_db_envelope, 1, [LogQuery ''mangrove'' 6, CountDocuments])"
  by (simp add: vectorSearchTool_def search_body_def empty_collection_def)

lemma throttled_collection_body:
  "search_body throttled_collection ''mangrove'' 6 0 =
     (Inl (Thrown rate_limit_error), 3,
      [LogQuery ''mangrove'' 6, CountDocuments, NewEmbeddings, NewVectorStore,
       Search Invoked, Search (Logged 2000 1), Search (Slept 2000),
       Search Invoked, Search (Logged 4000 2), Search (Slept 4000),
       Search Invoked])"
  by (simp add: search_body_def throttled_collection_def
      retryWithBackoff_default_def retryWithBackoff_def retry_loop.simps always_rate_limited_def
      rate_limit_error_def isRate_def prepend_events_def backoff_delay_def)

lemma throttled_collection_run:
  "vectorSearchTool throttled_collection ''mangrove'' None 0 =
     (Inr [(''error'', FStr ''search_error''), (''details'', FVal (JStr ''Too Many Requests'')),
           (''query'', FStr ''mangrove'')], 3,
      [LogQuery ''mangrove'' 6, CountDocuments, NewEmbeddings, NewVectorStore,
       Search Invoked, Search (Logged 2000 1), Search (Slept 2000),
       Search Invoked, Search (Logged 4000 2), Search (Slept 4000),
       Search Invoked, LogError (Thrown rate_limit_error)])"
  by (simp add: vectorSearchTool_def throttled_collection_body catch_block_def error_details_def)
     (simp add: rate_limit_error_def)





text \<open>
  Claim C7. When the collection counts zero documents, the tool returns the \<^verbatim>\<open>empty_db\<close>
  envelope, with \<^verbatim>\<open>error: "empty_db"\<close> and \<^verbatim>\<open>count: 0\<close>, in the state the count left;
  all it did was log the query and count, so neither constructor ran and the similarity
  search was not called.
\<close>

theorem vectorSearchTool_empty_collection:
  fixes c :: "('w, 'sc) collaborators"
  shows "countDocuments c w = (Inr 0, w') \<Longrightarrow>
     vectorSearchTool c query n_arg w =
       (Inr empty_db_envelope, w', [LogQuery query (case n_arg of None \<Rightarrow> 6 | Some n \<Rightarrow> n), CountDocuments]) \<and>
     map_of (empty_db_envelope :: 'sc envelope) ''error'' = Some (FStr ''empty_db'') \<and>
     map_of (empty_db_envelope :: 'sc envelope) ''count'' = Some (FNum 0) \<and>
     NewEmbeddings \<notin> set (snd (snd (vectorSearchTool c query n_arg w))) \<and>
     NewVectorStore \<notin> set (snd (snd (vectorSearchTool c query n_arg w))) \<and>
     Search Invoked \<notin> set (snd (snd (vectorSearchTool c query n_arg w)))"
  by (simp add: vectorSearchTool_def search_body_def empty_db_envelope_def)

theorem vectorSearchTool_empty_collection_witness:
  "countDocuments empty_collection 0 = (Inr 0, 1) \<and>
   vectorSearchTool empty_collection ''mangrove'' None 0 =
     (Inr empty_db_envelope, 1, [LogQuery ''mangrove'' 6, CountDocuments]) \<and>
   Search Invoked \<notin> set (snd (snd (vectorSearchTool empty_collection ''mangrove'' None 0)))"
proof -
  have h: "countDocuments empty_collection 0 = (Inr 0, 1)"
    by (simp add: empty_collection_def)
  show ?thesis
    using vectorSearchTool_empty_collection [OF h, of "''mangrove''" None] h by simp
qed

text \<open>
  Claim C3, as the code has it. An error envelope returned by the tool is one of two:
  \<^verbatim>\<open>{error: "empty_db", message: "No indexed documents found", count: 0}\<close>, without the
  query, or \<^verbatim>\<open>{error: "search_error", details, query}\<close> with the original query, where
  the \<^verbatim>\<open>try\<close> block threw an exception and \<^verbatim>\<open>details\<close> is the message of that exception
  (its string conversion when it has no message); this envelope has no property
  \<^verbatim>\<open>message\<close>.
\<close>

theorem vectorSearchTool_error_shapes:
  assumes "fst (vectorSearchTool c query n_arg w) = Inr e"
    and "''error'' \<in> set (map fst e)"
  shows "e = [(''error'', FStr ''empty_db''), (''message'', FStr ''No indexed documents found''),
              (''count'', FNum 0)] \<or>
         (\<exists>err d. fst (search_body c query (case n_arg of None \<Rightarrow> 6 | Some n \<Rightarrow> n) w) = Inl err \<and>
            e = [(''error'', FStr ''search_error''), (''details'', d), (''query'', FStr query)] \<and>
            ((err = TypeError \<and> d = FEngineText) \<or>
             (\<exists>v. err = Thrown v \<and> \<not> nullish (js_get v ''message'') \<and>
                  d = FVal (js_get v ''message'')) \<or>
             (\<exists>v s. err = Thrown v \<and> nullish (js_get v ''message'') \<and> to_string v = Inr s \<and>
                  d = FVal (JStr s))))"
proof -
  consider (ok) "fst (search_body c query (case n_arg of None \<Rightarrow> 6 | Some n \<Rightarrow> n) w) = Inr e"
    | (failed) err where "fst (search_body c query (case n_arg of None \<Rightarrow> 6 | Some n \<Rightarrow> n) w) = Inl err"
        "catch_block err query = Inr e"
    using assms(1) vectorSearchTool_cases [of c query n_arg w] by auto
  then show ?thesis
  proof cases
    case ok
    then have "e = empty_db_envelope \<or> (\<exists>normalized. e = success_envelope normalized query)"
      by (rule search_body_ok_cases)
    with assms(2) have "e = empty_db_envelope"
      by (auto simp: success_envelope_def)
    then show ?thesis by (simp add: empty_db_envelope_def)
  next
    case failed
    from catch_block_Inr [OF failed(2)] failed(1) show ?thesis by blast
  qed
qed

theorem vectorSearchTool_error_shapes_witness:
  "fst (vectorSearchTool throttled_collection ''mangrove'' None 0) =
     Inr [(''error'', FStr ''search_error''), (''details'', FVal (JStr ''Too Many Requests'')),
          (''query'', FStr ''mangrove'')] \<and>
   ''error'' \<in> set (map fst [(''error'', FStr ''search_error'') :: string \<times> nat envelope_value,
          (''details'', FVal (JStr ''Too Many Requests'')), (''query'', FStr ''mangrove'')]) \<and>
   (\<exists>err d. fst (search_body throttled_collection ''mangrove'' 6 0) = Inl err \<and>
      [(''error'', FStr ''search_error''), (''details'', FVal (JStr ''Too Many Requests'')),
       (''query'', FStr ''mangrove'')]
        = [(''error'', FStr ''search_error'') :: string \<times> nat envelope_value, (''details'', d),
           (''query'', FStr ''mangrove'')])"
proof -
  have h1: "fst (vectorSearchTool throttled_collection ''mangrove'' None 0) =
     Inr [(''error'', FStr ''search_error''), (''details'', FVal (JStr ''Too Many Requests'')),
          (''query'', FStr ''mangrove'')]"
    by (simp add: throttled_collection_run)
  have h2: "''error'' \<in> set (map fst [(''error'', FStr ''search_error'') :: string \<times> nat envelope_value,
          (''details'', FVal (JStr ''Too Many Requests'')), (''query'', FStr ''mangrove'')])"
    by simp
  from vectorSearchTool_error_shapes [OF h1 h2]
  have "\<exists>err d. fst (search_body throttled_collection ''mangrove'' 6 0) = Inl err \<and>
      [(''error'', FStr ''search_error''), (''details'', FVal (JStr ''Too Many Requests'')),
       (''query'', FStr ''mangrove'')]
        = [(''error'', FStr ''search_error'') :: string \<times> nat envelope_value, (''details'', d),
           (''query'', FStr ''mangrove'')]"
    by auto
  with h1 h2 show ?thesis by blast
qed

text \<open>
  The two runs that refute the claim as stated: the envelope of the empty collection has
  no property \<^verbatim>\<open>query\<close>, and the envelope of the failed search has no property
  \<^verbatim>\<open>message\<close>.
\<close>

theorem vectorSearchTool_error_shapes_counterexample:
  "fst (vectorSearchTool empty_collection ''mangrove'' None 0) =
     Inr [(''error'', FStr ''empty_db''), (''message'', FStr ''No indexed documents found''),
          (''count'', FNum 0)] \<and>
   map_of [(''error'', FStr ''empty_db'') :: string \<times> nat envelope_value,
           (''message'', FStr ''No indexed documents found''), (''count'', FNum 0)] ''query'' = None \<and>
   fst (vectorSearchTool throttled_collection ''mangrove'' None 0) =
     Inr [(''error'', FStr ''search_error''), (''details'', FVal (JStr ''Too Many Requests'')),
          (''query'', FStr ''mangrove'')] \<and>
   map_of [(''error'', FStr ''search_error'') :: string \<times> nat envelope_value,
           (''details'', FVal (JStr ''Too Many Requests'')), (''query'', FStr ''mangrove'')]
     ''message'' = None"
  by (simp add: empty_collection_run throttled_collection_run empty_db_envelope_def)

section \<open>Properties of the result normalizer\<close>

declare dec_digits.simps [simp del]

lemma decimal_50: "decimal 50 = ''50''"
  by code_simp

text \<open>
  Concatenation succeeds exactly when both parts do, and the text of a value is what its
  conversion gives.
\<close>

lemma str_cat_Inr_iff:
  "str_cat a b = Inr x \<longleftrightarrow> (\<exists>u v. a = Inr u \<and> b = Inr v \<and> x = u @ v)"
  by (cases a; cases b) auto

lemma to_string_text: "to_string v = Inr s \<Longrightarrow> text_of v = s"
  by (simp add: text_of_def)

text \<open>
  Plain data converts to a string, and everything read out of plain data is plain.
\<close>

lemma plain_to_string: "plain v \<Longrightarrow> to_string v = Inr (text_of v)"
  by (cases v) (auto simp: text_of_def)

lemma plain_js_get: "plain v \<Longrightarrow> plain (js_get v k)"
proof (cases v)
  case (JObj kvs)
  assume p: "plain v"
  show ?thesis
  proof (cases "map_of kvs k")
    case None
    with JObj show ?thesis by simp
  next
    case (Some x)
    then have "(k, x) \<in> set kvs" by (rule map_of_SomeD)
    with p JObj have "plain x" by (force simp: list_all_iff)
    with JObj Some show ?thesis by simp
  qed
qed simp_all

lemma plain_nullish_or: "plain a \<Longrightarrow> plain b \<Longrightarrow> plain (nullish_or a b)"
  by (simp add: nullish_or_def)

lemma plain_fields:
  assumes "plain doc"
  shows "plain (meta_of doc)" "plain (raw_of doc)" "plain (row_of doc)"
    "plain (location_of doc)" "plain (sequestration_of doc)" "plain (price_of doc)"
    "plain (stock_of doc)" "plain (luas_of doc)" "plain (karbon_of doc)" "plain (rating_of doc)"
  using assms
  by (simp_all add: meta_of_def raw_of_def row_of_def location_of_def sequestration_of_def
      price_of_def stock_of_def luas_of_def karbon_of_def rating_of_def plain_nullish_or plain_js_get)

text \<open>
  With a content that is a string or absent, neither \<^verbatim>\<open>slice\<close> nor \<^verbatim>\<open>split\<close> can fail,
  and with a string content the name that is resolved is never nullish.
\<close>

lemma opt_slice_textual:
  "nullish v \<or> (\<exists>s. v = JStr s) \<Longrightarrow> \<exists>x. opt_slice v n = Inr x \<and> plain x \<and> ((\<exists>s. v = JStr s) \<longrightarrow> \<not> nullish x)"
  by (cases v) auto

lemma projectName_of_textual:
  assumes "nullish (js_get doc ''pageContent'') \<or> (\<exists>s. js_get doc ''pageContent'' = JStr s)"
    and "plain doc"
  shows "\<exists>nm. projectName_of doc = Inr nm \<and> plain nm \<and>
           ((\<exists>s. js_get doc ''pageContent'' = JStr s) \<longrightarrow> \<not> nullish nm)"
proof -
  let ?a = "nullish_or
              (nullish_or (js_get (raw_of doc) ''projectName'') (js_get (raw_of doc) ''ProjectName''))
              (js_get (meta_of doc) ''projectName'')"
  have pa: "plain ?a"
    using assms(2) by (simp add: plain_nullish_or plain_js_get plain_fields)
  show ?thesis
  proof (cases "nullish ?a")
    case True
    with opt_slice_textual [OF assms(1), of 80] show ?thesis
      by (auto simp: projectName_of_def Let_def)
  next
    case False
    with pa show ?thesis by (simp add: projectName_of_def Let_def)
  qed
qed

lemma nama_of_textual:
  assumes "nullish (js_get doc ''pageContent'') \<or> (\<exists>s. js_get doc ''pageContent'' = JStr s)"
    and "plain doc"
  shows "\<exists>nm. nama_of doc = Inr nm \<and> plain nm \<and>
           ((\<exists>s. js_get doc ''pageContent'' = JStr s) \<longrightarrow> \<not> nullish nm)"
proof -
  let ?a = "nullish_or
              (nullish_or (js_get (row_of doc) ''nama_lokasi'') (js_get (row_of doc) ''nama_lokasi''))
              (js_get (row_of doc) ''name'')"
  have pa: "plain ?a"
    using assms(2) by (simp add: plain_nullish_or plain_js_get plain_fields)
  show ?thesis
  proof (cases "nullish ?a")
    case True
    with opt_slice_textual [OF assms(1), of 80] show ?thesis
      by (auto simp: nama_of_def Let_def)
  next
    case False
    with pa show ?thesis by (simp add: nama_of_def Let_def)
  qed
qed

lemma content_or_empty_textual:
  "nullish (js_get doc ''pageContent'') \<or> (\<exists>s. js_get doc ''pageContent'' = JStr s) \<Longrightarrow>
     \<exists>s. content_or_empty doc = JStr s"
  by (auto simp: content_or_empty_def nullish_or_def)

text \<open>
  A template literal that returns has produced its prefix, the text of the name, and the
  suffixes of the optional fields; on plain data it returns.
\<close>

lemma present_suffixes_Nil: "present_suffixes [] = []"
  by (simp add: present_suffixes_def)

lemma present_suffixes_Cons:
  "present_suffixes ((label, v, unit) # fs) =
     (if truthy v then label @ text_of v @ unit else []) @ present_suffixes fs"
  by (simp add: present_suffixes_def)

lemma project_summary_Inr:
  "project_summary nm l s p st = Inr x \<Longrightarrow>
     x = ''Project: '' @ text_of nm @
           present_suffixes [('' | Location: '', l, []), ('' | Est. sequestration: '', s, []),
                             ('' | Price: '', p, []), ('' | Stock: '', st, [])]"
  by (auto simp: project_summary_def str_cat_Inr_iff present_suffixes_Cons present_suffixes_Nil
      to_string_text split: if_splits)

lemma row_summary_Inr:
  "row_summary nm a k r = Inr x \<Longrightarrow>
     x = ''Location: '' @ text_of nm @
           present_suffixes [('' | Area: '', a, '' ha''), ('' | Carbon captured: '', k, []),
                             ('' | Rating: '', r, [])]"
  by (auto simp: row_summary_def str_cat_Inr_iff present_suffixes_Cons present_suffixes_Nil
      to_string_text split: if_splits)

lemma project_summary_plain:
  "plain nm \<Longrightarrow> plain l \<Longrightarrow> plain s \<Longrightarrow> plain p \<Longrightarrow> plain st \<Longrightarrow>
     \<exists>x. project_summary nm l s p st = Inr x"
  by (simp add: project_summary_def plain_to_string)

lemma row_summary_plain:
  "plain nm \<Longrightarrow> plain a \<Longrightarrow> plain k \<Longrightarrow> plain r \<Longrightarrow> \<exists>x. row_summary nm a k r = Inr x"
  by (simp add: row_summary_def plain_to_string)

lemma summary_of_textual:
  assumes "nullish (js_get doc ''pageContent'') \<or> (\<exists>s. js_get doc ''pageContent'' = JStr s)"
    and "plain doc"
  shows "\<exists>s. summary_of doc = Inr s \<and>
           (s = []) = (branch_of doc = Fallback \<and> content_or_empty doc = JStr []) \<and>
           (branch_of doc = Fallback \<longrightarrow> (\<exists>t. content_or_empty doc = JStr t \<and> s = take 150 t))"
proof -
  from assms obtain nm where nm: "projectName_of doc = Inr nm" "plain nm"
    using projectName_of_textual by blast
  from assms obtain nama where nama: "nama_of doc = Inr nama" "plain nama"
    using nama_of_textual by blast
  from assms obtain t where t: "content_or_empty doc = JStr t"
    using content_or_empty_textual by blast
  note pf = plain_fields [OF assms(2)]
  show ?thesis
  proof (cases "branch_of doc")
    case ProjectRecord
    from project_summary_plain [OF nm(2) pf(4) pf(5) pf(6) pf(7)]
    obtain x where x: "project_summary nm (location_of doc) (sequestration_of doc) (price_of doc)
        (stock_of doc) = Inr x" by blast
    from project_summary_Inr [OF x] have "x \<noteq> []" by simp
    with ProjectRecord x nm show ?thesis by (simp add: summary_of_def)
  next
    case TabularRow
    from row_summary_plain [OF nama(2) pf(8) pf(9) pf(10)]
    obtain x where x: "row_summary nama (luas_of doc) (karbon_of doc) (rating_of doc) = Inr x"
      by blast
    from row_summary_Inr [OF x] have "x \<noteq> []" by simp
    with TabularRow x nama show ?thesis by (simp add: summary_of_def)
  next
    case DocumentChunk
    then show ?thesis by (simp add: summary_of_def snippet_of_def t)
  next
    case Fallback
    then show ?thesis by (simp add: summary_of_def excerpt_of_def t)
  qed
qed

text \<open>
  Outside these documents the normalizer does throw: on a document that is
  \<^verbatim>\<open>undefined\<close> or \<^verbatim>\<open>null\<close>, on a content that is not a string, and on a name that
  cannot be converted to a string.
\<close>

lemma normalize_hit_nullish_throws:
  "nullish doc \<Longrightarrow> normalize_hit (doc, sc) = Inl TypeError"
  by (simp add: normalize_hit_def)

lemma normalize_hit_numeric_content_throws:
  "normalize_hit (numeric_content_doc, 0::nat) = Inl TypeError"
  by (simp add: normalize_hit_def summary_of_def branch_of_def source_of_def meta_of_def
      excerpt_of_def content_or_empty_def nullish_or_def numeric_content_doc_def)

lemma normalize_hit_unprintable_name_throws:
  "normalize_hit (unprintable_name_doc, 0::nat) = Inl TypeError"
  by (simp add: normalize_hit_def summary_of_def branch_of_def source_of_def meta_of_def
      projectName_of_def raw_of_def project_summary_def nullish_or_def unprintable_name_doc_def)

text \<open>
  The sample project record, field by field, and its normalized form.
\<close>

lemma mangrove_doc_facts:
  "\<not> nullish mangrove_doc"
  "js_get mangrove_doc ''pageContent'' = JStr ''Mangrove Bay restoration''"
  "plain mangrove_doc"
  "branch_of mangrove_doc = ProjectRecord"
  "projectName_of mangrove_doc = Inr (JStr ''Mangrove Bay'')"
  "location_of mangrove_doc = JStr ''Bali''"
  "sequestration_of mangrove_doc = JUndefined"
  "price_of mangrove_doc = JNum 50"
  "stock_of mangrove_doc = JNum 0"
  by (simp_all add: mangrove_doc_def branch_of_def source_of_def meta_of_def raw_of_def
      projectName_of_def location_of_def sequestration_of_def price_of_def stock_of_def nullish_or_def)

lemma mangrove_summary:
  "normalize_hit (mangrove_doc, 7::nat) =
     Inr \<lparr>id_field = JUndefined, score = 7, source = JStr ''dummyProjects'',
          summary = ''Project: Mangrove Bay | Location: Bali | Price: 50'', full = mangrove_doc\<rparr>"
  by (simp add: normalize_hit_def summary_of_def mangrove_doc_facts project_summary_def decimal_50)
     (simp add: mangrove_doc_def source_of_def meta_of_def id_of_def nullish_or_def)

text \<open>
  Claim C2, as the code has it. On every hit whose document is not nullish, whose content
  is a string or absent and which is plain data, the normalizer does not raise and yields
  a summary. The summary is empty exactly when no source-specific branch applies and the
  content is empty or absent; in that fallback branch it is the first 150 characters of
  the content.
\<close>

theorem normalize_hit_textual:
  assumes "\<not> nullish doc"
    and "nullish (js_get doc ''pageContent'') \<or> (\<exists>s. js_get doc ''pageContent'' = JStr s)"
    and "plain doc"
  shows "\<exists>r. normalize_hit (doc, sc) = Inr r \<and>
           (summary r = []) = (branch_of doc = Fallback \<and> content_or_empty doc = JStr []) \<and>
           (branch_of doc = Fallback \<longrightarrow>
              (\<exists>t. content_or_empty doc = JStr t \<and> summary r = take 150 t))"
  using summary_of_textual [OF assms(2,3)] assms(1)
  by (auto simp: normalize_hit_def)

theorem normalize_hit_textual_witness:
  "\<not> nullish mangrove_doc \<and>
   js_get mangrove_doc ''pageContent'' = JStr ''Mangrove Bay restoration'' \<and>
   plain mangrove_doc \<and>
   (\<exists>r. normalize_hit (mangrove_doc, 7::nat) = Inr r \<and> summary r \<noteq> [])"
proof -
  note f = mangrove_doc_facts
  have h: "nullish (js_get mangrove_doc ''pageContent'') \<or> (\<exists>s. js_get mangrove_doc ''pageContent'' = JStr s)"
    by (simp add: f(2))
  show ?thesis
    using normalize_hit_textual [OF f(1) h f(3), of 7] f by auto
qed

text \<open>
  The hit that refutes the claim as stated: empty content and no metadata give a summary
  of length 0.
\<close>

theorem normalize_hit_empty_summary_counterexample:
  "normalize_hit (blank_doc, 0::nat) =
     Inr \<lparr>id_field = JUndefined, score = 0, source = JStr ''unknown'', summary = [], full = blank_doc\<rparr> \<and>
   length (summary \<lparr>id_field = JUndefined, score = 0::nat, source = JStr ''unknown'', summary = [],
                    full = blank_doc\<rparr>) = 0"
  by (simp add: normalize_hit_def summary_of_def branch_of_def source_of_def meta_of_def id_of_def
      excerpt_of_def content_or_empty_def nullish_or_def blank_doc_def)




text \<open>
  Claim C10. Whenever the normalizer returns for a hit of the project or the tabular
  branch and one of the optional fields of that branch (location, sequestration, price,
  stock; area, carbon, rating) has the value \<open>0\<close> or the empty string, the summary
  consists of the prefix, the text of the name and the suffixes of the other optional
  fields only: the field counts as absent and its suffix is omitted.
\<close>

theorem zero_or_empty_field_omitted:
  assumes "normalize_hit (doc, sc) = Inr r"
  shows
    "(branch_of doc = ProjectRecord \<longrightarrow>
        (\<exists>nm. projectName_of doc = Inr nm \<and>
          (location_of doc = JNum 0 \<or> location_of doc = JStr [] \<longrightarrow>
             summary r = ''Project: '' @ text_of nm @
               present_suffixes
                 [('' | Est. sequestration: '', sequestration_of doc, []),
                  ('' | Price: '', price_of doc, []), ('' | Stock: '', stock_of doc, [])]) \<and>
          (sequestration_of doc = JNum 0 \<or> sequestration_of doc = JStr [] \<longrightarrow>
             summary r = ''Project: '' @ text_of nm @
               present_suffixes
                 [('' | Location: '', location_of doc, []),
                  ('' | Price: '', price_of doc, []), ('' | Stock: '', stock_of doc, [])]) \<and>
          (price_of doc = JNum 0 \<or> price_of doc = JStr [] \<longrightarrow>
             summary r = ''Project: '' @ text_of nm @
               present_suffixes
                 [('' | Location: '', location_of doc, []),
                  ('' | Est. sequestration: '', sequestration_of doc, []),
                  ('' | Stock: '', stock_of doc, [])]) \<and>
          (stock_of doc = JNum 0 \<or> stock_of doc = JStr [] \<longrightarrow>
             summary r = ''Project: '' @ text_of nm @
               present_suffixes
                 [('' | Location: '', location_of doc, []),
                  ('' | Est. sequestration: '', sequestration_of doc, []),
                  ('' | Price: '', price_of doc, [])]))) \<and>
     (branch_of doc = TabularRow \<longrightarrow>
        (\<exists>nm. nama_of doc = Inr nm \<and>
          (luas_of doc = JNum 0 \<or> luas_of doc = JStr [] \<longrightarrow>
             summary r = ''Location: '' @ text_of nm @
               present_suffixes
                 [('' | Carbon captured: '', karbon_of doc, []),
                  ('' | Rating: '', rating_of doc, [])]) \<and>
          (karbon_of doc = JNum 0 \<or> karbon_of doc = JStr [] \<longrightarrow>
             summary r = ''Location: '' @ text_of nm @
               present_suffixes
                 [('' | Area: '', luas_of doc, '' ha''), ('' | Rating: '', rating_of doc, [])]) \<and>
          (rating_of doc = JNum 0 \<or> rating_of doc = JStr [] \<longrightarrow>
             summary r = ''Location: '' @ text_of nm @
               present_suffixes
                 [('' | Area: '', luas_of doc, '' ha''),
                  ('' | Carbon captured: '', karbon_of doc, [])])))"
proof -
  from assms have s: "summary_of doc = Inr (summary r)"
    by (auto simp: normalize_hit_def Let_def split: if_splits sum.splits)
  show ?thesis
  proof (intro conjI impI)
    assume b: "branch_of doc = ProjectRecord"
    with s obtain nm where nm: "projectName_of doc = Inr nm"
      and x: "project_summary nm (location_of doc) (sequestration_of doc) (price_of doc)
                (stock_of doc) = Inr (summary r)"
      by (auto simp: summary_of_def split: sum.splits)
    from project_summary_Inr [OF x] nm
    show "\<exists>nm. projectName_of doc = Inr nm \<and>
          (location_of doc = JNum 0 \<or> location_of doc = JStr [] \<longrightarrow>
             summary r = ''Project: '' @ text_of nm @
               present_suffixes
                 [('' | Est. sequestration: '', sequestration_of doc, []),
                  ('' | Price: '', price_of doc, []), ('' | Stock: '', stock_of doc, [])]) \<and>
          (sequestration_of doc = JNum 0 \<or> sequestration_of doc = JStr [] \<longrightarrow>
             summary r = ''Project: '' @ text_of nm @
               present_suffixes
                 [('' | Location: '', location_of doc, []),
                  ('' | Price: '', price_of doc, []), ('' | Stock: '', stock_of doc, [])]) \<and>
          (price_of doc = JNum 0 \<or> price_of doc = JStr [] \<longrightarrow>
             summary r = ''Project: '' @ text_of nm @
               present_suffixes
                 [('' | Location: '', location_of doc, []),
                  ('' | Est. sequestration: '', sequestration_of doc, []),
                  ('' | Stock: '', stock_of doc, [])]) \<and>
          (stock_of doc = JNum 0 \<or> stock_of doc = JStr [] \<longrightarrow>
             summary r = ''Project: '' @ text_of nm @
               present_suffixes
                 [('' | Location: '', location_of doc, []),
                  ('' | Est. sequestration: '', sequestration_of doc, []),
                  ('' | Price: '', price_of doc, [])])"
      by (auto simp: present_suffixes_Cons present_suffixes_Nil)
  next
    assume b: "branch_of doc = TabularRow"
    with s obtain nm where nm: "nama_of doc = Inr nm"
      and x: "row_summary nm (luas_of doc) (karbon_of doc) (rating_of doc) = Inr (summary r)"
      by (auto simp: summary_of_def split: sum.splits)
    from row_summary_Inr [OF x] nm
    show "\<exists>nm. nama_of doc = Inr nm \<and>
          (luas_of doc = JNum 0 \<or> luas_of doc = JStr [] \<longrightarrow>
             summary r = ''Location: '' @ text_of nm @
               present_suffixes
                 [('' | Carbon captured: '', karbon_of doc, []),
                  ('' | Rating: '', rating_of doc, [])]) \<and>
          (karbon_of doc = JNum 0 \<or> karbon_of doc = JStr [] \<longrightarrow>
             summary r = ''Location: '' @ text_of nm @
               present_suffixes
                 [('' | Area: '', luas_of doc, '' ha''), ('' | Rating: '', rating_of doc, [])]) \<and>
          (rating_of doc = JNum 0 \<or> rating_of doc = JStr [] \<longrightarrow>
             summary r = ''Location: '' @ text_of nm @
               present_suffixes
                 [('' | Area: '', luas_of doc, '' ha''),
                  ('' | Carbon captured: '', karbon_of doc, [])])"
      by (auto simp: present_suffixes_Cons present_suffixes_Nil)
  qed
qed

text \<open>
  The sample project record has a stock of \<open>0\<close>: its summary ends with the price.
\<close>

theorem zero_or_empty_field_omitted_witness:
  "normalize_hit (mangrove_doc, 7::nat) =
     Inr \<lparr>id_field = JUndefined, score = 7, source = JStr ''dummyProjects'',
          summary = ''Project: Mangrove Bay | Location: Bali | Price: 50'', full = mangrove_doc\<rparr> \<and>
   branch_of mangrove_doc = ProjectRecord \<and>
   projectName_of mangrove_doc = Inr (JStr ''Mangrove Bay'') \<and>
   stock_of mangrove_doc = JNum 0 \<and>
   ''Project: Mangrove Bay | Location: Bali | Price: 50'' =
     ''Project: '' @ text_of (JStr ''Mangrove Bay'') @
       present_suffixes
         [('' | Location: '', location_of mangrove_doc, []),
          ('' | Est. sequestration: '', sequestration_of mangrove_doc, []),
          ('' | Price: '', price_of mangrove_doc, [])]"
proof -
  note f = mangrove_doc_facts
  from zero_or_empty_field_omitted [OF mangrove_summary] f(4)
  obtain nm where nm: "projectName_of mangrove_doc = Inr nm"
    and "stock_of mangrove_doc = JNum 0 \<or> stock_of mangrove_doc = JStr [] \<longrightarrow>
      summary \<lparr>id_field = JUndefined, score = 7::nat, source = JStr ''dummyProjects'',
          summary = ''Project: Mangrove Bay | Location: Bali | Price: 50'', full = mangrove_doc\<rparr>
        = ''Project: '' @ text_of nm @
            present_suffixes
              [('' | Location: '', location_of mangrove_doc, []),
               ('' | Est. sequestration: '', sequestration_of mangrove_doc, []),
               ('' | Price: '', price_of mangrove_doc, [])]"
    by blast
  with f(5) f(9) have "''Project: Mangrove Bay | Location: Bali | Price: 50'' =
     ''Project: '' @ text_of (JStr ''Mangrove Bay'') @
       present_suffixes
         [('' | Location: '', location_of mangrove_doc, []),
          ('' | Est. sequestration: '', sequestration_of mangrove_doc, []),
          ('' | Price: '', price_of mangrove_doc, [])]"
    by simp
  with mangrove_summary f show ?thesis by blast
qed

end
